theory Spec2Isabelle
  imports Main
begin

section \<open>JSON values and Python exceptions\<close>

text \<open>
  The request bodies are what \<open>request.json()\<close> returns: nested Python values.
  An object is given by the items of the parsed dict (the keys are distinct, as in
  any dict), a string by the list of its characters. Numbers are restricted to
  integers.
\<close>

datatype json =
    JNull
  | JBool bool
  | JInt int
  | JStr string
  | JArr "json list"
  | JObj "(string \<times> json) list"

datatype exn =
    KeyError
  | IndexError
  | TypeError
  | AttributeError
  | FileNotFoundError
  | NotFoundError
  | SPARQLRequestFailed

text \<open>\<open>v[k]\<close> with a string key \<open>k\<close>: only a dict accepts it.\<close>

fun getitem :: "json \<Rightarrow> string \<Rightarrow> exn + json" where
  "getitem (JObj kvs) k = (case map_of kvs k of None \<Rightarrow> Inl KeyError | Some v \<Rightarrow> Inr v)"
| "getitem _ k = Inl TypeError"

text \<open>\<open>v[0]\<close>: the first element of a list or string, the key \<open>0\<close> of a dict
  (never present: JSON keys are strings).\<close>

fun getitem0 :: "json \<Rightarrow> exn + json" where
  "getitem0 (JArr []) = Inl IndexError"
| "getitem0 (JArr (x # xs)) = Inr x"
| "getitem0 (JStr []) = Inl IndexError"
| "getitem0 (JStr (c # cs)) = Inr (JStr [c])"
| "getitem0 (JObj kvs) = Inl KeyError"
| "getitem0 _ = Inl TypeError"

text \<open>\<open>for elem in v\<close>: the elements of a list, the keys of a dict, the characters
  of a string.\<close>

fun iter :: "json \<Rightarrow> exn + json list" where
  "iter (JArr xs) = Inr xs"
| "iter (JObj kvs) = Inr (map (\<lambda>kv. JStr (fst kv)) kvs)"
| "iter (JStr s) = Inr (map (\<lambda>c. JStr [c]) s)"
| "iter _ = Inl TypeError"

text \<open>Truth value of a Python object, as \<open>if v:\<close> tests it.\<close>

fun truthy :: "json \<Rightarrow> bool" where
  "truthy JNull = False"
| "truthy (JBool b) = b"
| "truthy (JInt i) = (i \<noteq> 0)"
| "truthy (JStr s) = (s \<noteq> [])"
| "truthy (JArr xs) = (xs \<noteq> [])"
| "truthy (JObj kvs) = (kvs \<noteq> [])"


section \<open>The change filter: \<open>Application.stack_inserted\<close>\<close>

definition doap_Stack :: string where
  "doap_Stack = ''http://usefulinc.com/ns/doap#Stack''"

definition rdf_type :: string where
  "rdf_type = ''http://www.w3.org/1999/02/22-rdf-syntax-ns#type''"

text \<open>\<open>elem[k]['value']\<close>\<close>

definition field_value :: "json \<Rightarrow> string \<Rightarrow> exn + json" where
  "field_value elem k =
     (case getitem elem k of Inl e \<Rightarrow> Inl e | Inr v \<Rightarrow> getitem v ''value'')"

text \<open>The condition of the comprehension: the object is compared first, the
  predicate only when the object matched (\<open>and\<close> short-circuits).\<close>

definition is_stack_insert :: "json \<Rightarrow> exn + bool" where
  "is_stack_insert elem =
     (case field_value elem ''o'' of
        Inl e \<Rightarrow> Inl e
      | Inr ov \<Rightarrow>
          if ov = JStr doap_Stack
          then (case field_value elem ''p'' of
                  Inl e \<Rightarrow> Inl e
                | Inr pv \<Rightarrow> Inr (pv = JStr rdf_type))
          else Inr False)"

text \<open>The list comprehension runs over every element, also past the first match.\<close>

fun comprehension :: "json list \<Rightarrow> exn + json list" where
  "comprehension [] = Inr []"
| "comprehension (elem # rest) =
     (case is_stack_insert elem of
        Inl e \<Rightarrow> Inl e
      | Inr False \<Rightarrow> comprehension rest
      | Inr True \<Rightarrow>
          (case field_value elem ''s'' of
             Inl e \<Rightarrow> Inl e
           | Inr sv \<Rightarrow>
               (case comprehension rest of
                  Inl e \<Rightarrow> Inl e
                | Inr svs \<Rightarrow> Inr (sv # svs))))"

definition stack_inserted :: "json \<Rightarrow> exn + json option" where
  "stack_inserted inserts =
     (case iter inserts of
        Inl e \<Rightarrow> Inl e
      | Inr elems \<Rightarrow>
          (case comprehension elems of
             Inl e \<Rightarrow> Inl e
           | Inr stack_uri \<Rightarrow>
               Inr (case stack_uri of [] \<Rightarrow> None | x # _ \<Rightarrow> Some x)))"

text \<open>A triple of the delta: subject, predicate and object, each a string.
  \<open>is_triple elem t\<close> says that the JSON element \<open>elem\<close> carries the triple \<open>t\<close>
  under the keys the filter reads.\<close>

record triple =
  subj :: string
  pred :: string
  obj :: string

definition is_triple :: "json \<Rightarrow> triple \<Rightarrow> bool" where
  "is_triple elem t \<longleftrightarrow>
     field_value elem ''s'' = Inr (JStr (subj t)) \<and>
     field_value elem ''p'' = Inr (JStr (pred t)) \<and>
     field_value elem ''o'' = Inr (JStr (obj t))"

definition qualifies :: "triple \<Rightarrow> bool" where
  "qualifies t \<longleftrightarrow> pred t = rdf_type \<and> obj t = doap_Stack"

text \<open>The delta service's rendering of a term and of a triple.\<close>

definition term_json :: "string \<Rightarrow> string \<Rightarrow> json" where
  "term_json ty v = JObj [(''type'', JStr ty), (''value'', JStr v)]"

definition triple_json :: "triple \<Rightarrow> json" where
  "triple_json t =
     JObj [(''s'', term_json ''uri'' (subj t)),
           (''p'', term_json ''uri'' (pred t)),
           (''o'', term_json ''uri'' (obj t))]"


section \<open>The graph store\<close>

text \<open>
  The store is consumed through the SPARQL client. Its state is a set of triples,
  kept as a list; a triple has an IRI as subject and predicate and an IRI or a
  literal as object.
\<close>

datatype rdf_term = IRI string | Lit string

type_synonym rdf_triple = "string \<times> string \<times> rdf_term"

type_synonym graph = "rdf_triple list"

text \<open>
  The characters the SPARQL grammar admits between the angle brackets of an IRI:
  no blank or control character, and none of the double quote, \<open><\<close>, \<open>>\<close>, the
  backslash, \<open>^\<close>, the backquote, \<open>{\<close>, \<open>|\<close> and \<open>}\<close>. The IRIs of a graph are
  made of such characters.
\<close>

definition iri_char :: "char \<Rightarrow> bool" where
  "iri_char c \<longleftrightarrow>
     (0x20 :: nat) < of_char c \<and>
     (of_char c :: nat) \<notin> set [0x22, 0x3C, 0x3E, 0x5C, 0x5E, 0x60, 0x7B, 0x7C, 0x7D]"

definition iri_safe :: "string \<Rightarrow> bool" where
  "iri_safe s = list_all iri_char s"

fun wf_term :: "rdf_term \<Rightarrow> bool" where
  "wf_term (IRI s) = iri_safe s"
| "wf_term (Lit s) = True"

definition wf_graph :: "graph \<Rightarrow> bool" where
  "wf_graph g = list_all (\<lambda>(s, p, x). iri_safe s \<and> iri_safe p \<and> wf_term x) g"

definition mu_uuid :: string where
  "mu_uuid = ''http://mu.semte.ch/vocabularies/core/uuid''"

definition dockerComposeFile :: string where
  "dockerComposeFile = ''http://swarmui.semte.ch/vocabularies/core/dockerComposeFile''"

definition DockerCompose :: string where
  "DockerCompose = ''http://stackbuilder.semte.ch/vocabularies/core/DockerCompose''"

definition stackbuilder_text :: string where
  "stackbuilder_text = ''http://stackbuilder.semte.ch/vocabularies/core/text''"

definition dct_title :: string where
  "dct_title = ''http://purl.org/dc/terms/title''"

text \<open>
  An argument handed to \<open>sparql.query\<close> or \<open>sparql.update\<close> for interpolation into
  the query text: \<open>Escaped s\<close> is the result of \<open>escape_string(s)\<close>, \<open>Raw s\<close> is the
  Python string \<open>s\<close> passed as it is.
\<close>

datatype arg = Escaped string | Raw string

text \<open>\<open>escape_string(None)\<close> fails on the attribute access of the absent string.\<close>

definition escape_string :: "string option \<Rightarrow> exn + arg" where
  "escape_string v = (case v of None \<Rightarrow> Inl AttributeError | Some s \<Rightarrow> Inr (Escaped s))"

text \<open>
  What an argument is once the store reads the text it was put into. A raw string
  between the angle brackets of a template is an IRI, the one it spells, when it
  is an absolute http IRI made of IRI characters; an escaped string in the place
  of a literal is the literal it was made from. Otherwise (a raw string with a
  character that ends the IRI, for one) the text is no longer the template with
  its holes filled, and the argument is not read as one term.
\<close>

fun as_iri :: "arg \<Rightarrow> string option" where
  "as_iri (Raw s) = (if iri_safe s \<and> take 7 s = ''http://'' then Some s else None)"
| "as_iri (Escaped s) = None"

fun as_literal :: "arg \<Rightarrow> string option" where
  "as_literal (Escaped s) = Some s"
| "as_literal (Raw s) = None"

text \<open>The three requests the application sends, with the arguments it passes.\<close>

datatype query = Ask_drc arg

datatype update =
    Insert_drc arg arg arg arg
  | Relink arg arg

text \<open>\<open>ASK { ?s mu:uuid u . ?s swarmui:dockerComposeFile ?x }\<close>\<close>

definition ask_drc :: "graph \<Rightarrow> string \<Rightarrow> bool" where
  "ask_drc g u =
     list_ex (\<lambda>(s, p, x). p = mu_uuid \<and> x = Lit u \<and>
                list_ex (\<lambda>(s', p', y). s' = s \<and> p' = dockerComposeFile) g) g"

text \<open>\<open>INSERT DATA\<close>: a triple already present is not added again.\<close>

definition insert_data :: "rdf_triple list \<Rightarrow> graph \<Rightarrow> graph" where
  "insert_data ts g = fold List.insert ts g"

text \<open>\<open>DELETE { s swarmui:dockerComposeFile ?s } WHERE { OPTIONAL { ... } }\<close>: every
  dockerComposeFile edge of the subject goes.\<close>

definition delete_links :: "string \<Rightarrow> graph \<Rightarrow> graph" where
  "delete_links s g = filter (\<lambda>(s', p, x). \<not> (s' = s \<and> p = dockerComposeFile)) g"

text \<open>
  The effect of a request on the store. When every argument is read as the term
  the template expects, the request does what the template says. When not, the
  store executes whatever the text has become: \<open>store\<close> stands for what it does
  then (it may refuse the request, which the client raises as an exception).
\<close>

fun exec_query :: "(query \<Rightarrow> graph \<Rightarrow> bool) \<Rightarrow> graph \<Rightarrow> query \<Rightarrow> bool" where
  "exec_query store g (Ask_drc u) =
     (case as_literal u of
        Some u' \<Rightarrow> ask_drc g u'
      | None \<Rightarrow> store (Ask_drc u) g)"

fun exec_update ::
  "(update \<Rightarrow> graph \<Rightarrow> exn + graph) \<Rightarrow> graph \<Rightarrow> update \<Rightarrow> exn + graph" where
  "exec_update store g (Insert_drc uri drc_uuid drc title) =
     (case (as_iri uri, as_literal drc_uuid, as_literal drc, as_literal title) of
        (Some s, Some u, Some d, Some t) \<Rightarrow>
          Inr (insert_data
                 [(s, rdf_type, IRI DockerCompose),
                  (s, mu_uuid, Lit u),
                  (s, stackbuilder_text, Lit d),
                  (s, dct_title, Lit t)] g)
      | _ \<Rightarrow> store (Insert_drc uri drc_uuid drc title) g)"
| "exec_update store g (Relink stack_uri drc_uri) =
     (case (as_iri stack_uri, as_iri drc_uri) of
        (Some s, Some d) \<Rightarrow>
          Inr (insert_data [(s, dockerComposeFile, IRI d)] (delete_links s g))
      | _ \<Rightarrow> store (Relink stack_uri drc_uri) g)"

text \<open>What the claims observe in a graph: the manifests a subject is linked to, and
  the manifest entities.\<close>

definition stack_links :: "graph \<Rightarrow> string \<Rightarrow> rdf_term list" where
  "stack_links g s =
     map (\<lambda>t. snd (snd t)) (filter (\<lambda>(s', p, x). s' = s \<and> p = dockerComposeFile) g)"

definition manifests :: "graph \<Rightarrow> string list" where
  "manifests g = map fst (filter (\<lambda>(s, p, x). p = rdf_type \<and> x = IRI DockerCompose) g)"

definition at_most_one_link :: "graph \<Rightarrow> bool" where
  "at_most_one_link g = list_all (\<lambda>t. length (stack_links g (fst t)) \<le> 1) g"


section \<open>The world the handlers run in\<close>

text \<open>
  Modelled from the spec: the classes \<open>UUIDStack\<close> and \<open>URIStack\<close>
  (\<open>mudrchandler/uuidstack.py\<close>, \<open>mudrchandler/uristack.py\<close>) are not among the
  files at hand. A \<open>UUIDStack\<close> carries its identifier, location and branch. A
  \<open>URIStack\<close> knows only the address taken from the delta; its three fields come
  from one lookup in the graph, which the object keeps afterwards. What the lookup
  answers is left open: it is the field \<open>lookup\<close> of the environment below.
\<close>

record stack =
  uuid :: string
  location :: string
  branch :: string

datatype stack_ref = UUIDStack stack | URIStack json

text \<open>How the subprocess ends: \<open>Exited rc\<close> when \<open>communicate()\<close> returns within the
  timeout, \<open>Timeout rc\<close> when \<open>wait_for\<close> raises \<open>TimeoutError\<close>, where \<open>rc\<close> is the
  \<open>returncode\<close> attribute at the time \<open>run_command\<close> returns (None for a child that
  is still running).\<close>

datatype proc = Exited int | Timeout "int option"

text \<open>What one request finds outside the program: the behaviour of the subprocess
  started with the given arguments, the files readable afterwards, the integer of
  the UUID that \<open>uuid1()\<close> makes, the answer of a \<open>URIStack\<close>'s lookup, and
  what the store does with a request whose text is not the template's.\<close>

record env =
  subprocess :: "string list \<Rightarrow> proc"
  files :: "string \<Rightarrow> string option"
  uuid1 :: nat
  lookup :: "graph \<Rightarrow> json \<Rightarrow> exn + stack"
  store_query :: "query \<Rightarrow> graph \<Rightarrow> bool"
  store_update :: "update \<Rightarrow> graph \<Rightarrow> exn + graph"

text \<open>\<open>uuid1().hex\<close>: the 32 hexadecimal digits of the UUID's integer.\<close>

definition hex_digit :: "nat \<Rightarrow> char" where
  "hex_digit d = ''0123456789abcdef'' ! (d mod 16)"

fun hex :: "nat \<Rightarrow> nat \<Rightarrow> string" where
  "hex 0 n = []"
| "hex (Suc k) n = hex k (n div 16) @ [hex_digit (n mod 16)]"

definition uuid1_hex :: "env \<Rightarrow> string" where
  "uuid1_hex env = hex 32 (uuid1 env)"

text \<open>Everything a handler does to the outside is recorded in order.\<close>

datatype effect =
    Sparql_query query
  | Sparql_update update
  | Lookup json
  | Subprocess "string list"
  | Terminate
  | Open_file string

record world =
  graph :: graph
  trace :: "effect list"

definition emit :: "effect list \<Rightarrow> world \<Rightarrow> world" where
  "emit es w = w\<lparr>trace := trace w @ es\<rparr>"

text \<open>\<open>sparql.update\<close>: the request is sent; the store changes unless it refuses.\<close>

definition sparql_update :: "env \<Rightarrow> world \<Rightarrow> update \<Rightarrow> (exn + unit) \<times> world" where
  "sparql_update env w u =
     (case exec_update (store_update env) (graph w) u of
        Inl e \<Rightarrow> (Inl e, emit [Sparql_update u] w)
      | Inr g \<Rightarrow> (Inr (), \<lparr>graph = g, trace = trace w @ [Sparql_update u]\<rparr>))"

text \<open>The replies of a handler: a response with its HTTP status (\<open>web.Response\<close> is
  200, \<open>HTTPBadRequest\<close> 400, \<open>HTTPInternalServerError\<close> 500), or an exception
  that no handler catches. The conflict envelope is formatted from the stack
  object's \<open>uuid\<close> attribute.\<close>

datatype body = Success_envelope | Conflict_envelope stack_ref | Text string

datatype reply = Response nat body | Raised exn


section \<open>The workflow: \<open>run_command\<close> to \<open>update_stack_drc\<close>\<close>

definition run_command :: "env \<Rightarrow> world \<Rightarrow> string list \<Rightarrow> int option \<times> world" where
  "run_command env w args =
     (case subprocess env args of
        Exited rc \<Rightarrow> (Some rc, emit [Subprocess args] w)
      | Timeout rc \<Rightarrow> (rc, emit [Subprocess args, Terminate] w))"

definition ensure_stack_has_drc ::
  "env \<Rightarrow> world \<Rightarrow> string \<Rightarrow> (exn + bool) \<times> world" where
  "ensure_stack_has_drc env w u =
     (case escape_string (Some u) of
        Inl e \<Rightarrow> (Inl e, w)
      | Inr a \<Rightarrow>
          (Inr (exec_query (store_query env) (graph w) (Ask_drc a)),
           emit [Sparql_query (Ask_drc a)] w))"

text \<open>\<open>stack.uuid\<close> (awaited for a \<open>URIStack\<close>).\<close>

definition resolve :: "env \<Rightarrow> world \<Rightarrow> stack_ref \<Rightarrow> (exn + stack) \<times> world" where
  "resolve env w ref =
     (case ref of
        UUIDStack st \<Rightarrow> (Inr st, w)
      | URIStack uri \<Rightarrow> (lookup env (graph w) uri, emit [Lookup uri] w))"

text \<open>\<open>os.path.join\<close> with a relative second part.\<close>

definition path_join :: "string \<Rightarrow> string \<Rightarrow> string" where
  "path_join a b = (if a = [] \<or> last a = CHR ''/'' then a @ b else a @ ''/'' @ b)"

text \<open>\<open>docker_compose\<close> returns the file's text, or None (the implicit return) when
  the stack is linked already or the command did not return 0. The resolved stack
  is returned with it: the later steps read it from the stack object.\<close>

definition docker_compose ::
  "env \<Rightarrow> world \<Rightarrow> stack_ref \<Rightarrow> (exn + string option \<times> stack) \<times> world" where
  "docker_compose env w ref =
     (case resolve env w ref of
        (Inl e, w1) \<Rightarrow> (Inl e, w1)
      | (Inr st, w1) \<Rightarrow>
          (case ensure_stack_has_drc env w1 (uuid st) of
             (Inl e, w2) \<Rightarrow> (Inl e, w2)
           | (Inr True, w2) \<Rightarrow> (Inr (None, st), w2)
           | (Inr False, w2) \<Rightarrow>
               (let project_path = ''/data/'' @ uuid st in
                case run_command env w2
                       [''git'', ''clone'', location st, ''-b'', branch st, project_path] of
                  (cmd, w3) \<Rightarrow>
                    if cmd = Some 0
                    then (let file = path_join project_path ''docker-compose.yml'' in
                          case files env file of
                            None \<Rightarrow> (Inl FileNotFoundError, emit [Open_file file] w3)
                          | Some text \<Rightarrow> (Inr (Some text, st), emit [Open_file file] w3))
                    else (Inr (None, st), w3))))"

definition drc_uri_of :: "string \<Rightarrow> string" where
  "drc_uri_of drc_uuid =
     ''http://stack-builder.big-data-europe.eu/resources/docker-composes/'' @ drc_uuid"

definition stack_uri_of :: "string \<Rightarrow> string" where
  "stack_uri_of stack_uuid =
     ''http://swarm-ui.big-data-europe.eu/resources/stacks/'' @ stack_uuid"

text \<open>The arguments of the update are evaluated, in order, before the request is
  sent: an exception of \<open>escape_string\<close> leaves the store untouched.\<close>

definition create_drc_db ::
  "env \<Rightarrow> world \<Rightarrow> string option \<Rightarrow> stack \<Rightarrow> (exn + string) \<times> world" where
  "create_drc_db env w drc st =
     (let drc_uuid = uuid1_hex env;
          stack_uuid = uuid st;
          uri = drc_uri_of drc_uuid
      in case escape_string (Some drc_uuid) of
           Inl e \<Rightarrow> (Inl e, w)
         | Inr a_uuid \<Rightarrow>
             (case escape_string drc of
                Inl e \<Rightarrow> (Inl e, w)
              | Inr a_drc \<Rightarrow>
                  (case escape_string (Some (''stack_'' @ stack_uuid @ ''_drc_'' @ drc_uuid)) of
                     Inl e \<Rightarrow> (Inl e, w)
                   | Inr a_title \<Rightarrow>
                       (case sparql_update env w (Insert_drc (Raw uri) a_uuid a_drc a_title) of
                          (Inl e, w1) \<Rightarrow> (Inl e, w1)
                        | (Inr done, w1) \<Rightarrow> (Inr uri, w1)))))"

definition update_stack_drc ::
  "env \<Rightarrow> world \<Rightarrow> string \<Rightarrow> stack \<Rightarrow> (exn + unit) \<times> world" where
  "update_stack_drc env w drc_uri st =
     (let stack_uuid = uuid st;
          stack_uri = stack_uri_of stack_uuid
      in sparql_update env w (Relink (Raw stack_uri) (Raw drc_uri)))"


section \<open>The two entry points\<close>

text \<open>The body of the \<open>try\<close> both handlers share: persist the manifest and relink;
  an \<open>AttributeError\<close> becomes the conflict reply, another exception passes.\<close>

definition persist_and_link ::
  "env \<Rightarrow> world \<Rightarrow> stack_ref \<Rightarrow> string option \<Rightarrow> stack \<Rightarrow> reply \<times> world" where
  "persist_and_link env w ref drc st =
     (case create_drc_db env w drc st of
        (Inl e, w1) \<Rightarrow>
          (if e = AttributeError then Response 500 (Conflict_envelope ref) else Raised e, w1)
      | (Inr drc_uri, w1) \<Rightarrow>
          (case update_stack_drc env w1 drc_uri st of
             (Inl e, w2) \<Rightarrow>
               (if e = AttributeError then Response 500 (Conflict_envelope ref) else Raised e,
                w2)
           | (Inr done, w2) \<Rightarrow> (Response 200 Success_envelope, w2)))"

text \<open>\<open>handle_fetch_drc\<close>: the body is None when \<open>request.json()\<close> fails, else the
  stack the parsed body describes. \<open>docker_compose\<close> runs outside the \<open>try\<close>.\<close>

definition handle_fetch_drc :: "env \<Rightarrow> world \<Rightarrow> stack option \<Rightarrow> reply \<times> world" where
  "handle_fetch_drc env w data =
     (case data of
        None \<Rightarrow> (Response 400 (Text ''invalid json''), w)
      | Some parsed \<Rightarrow>
          (let ref = UUIDStack parsed in
           case docker_compose env w ref of
             (Inl e, w1) \<Rightarrow> (Raised e, w1)
           | (Inr (drc, st), w1) \<Rightarrow> persist_and_link env w1 ref drc st))"

text \<open>\<open>handle_delta_update\<close>: here \<open>docker_compose\<close> runs inside the \<open>try\<close>.\<close>

definition link_inserted :: "env \<Rightarrow> world \<Rightarrow> json \<Rightarrow> reply \<times> world" where
  "link_inserted env w stack_uri =
     (let ref = URIStack stack_uri in
      case docker_compose env w ref of
        (Inl e, w1) \<Rightarrow>
          (if e = AttributeError then Response 500 (Conflict_envelope ref) else Raised e, w1)
      | (Inr (drc, st), w1) \<Rightarrow> persist_and_link env w1 ref drc st)"

text \<open>\<open>data['delta'][0]['inserts']\<close>\<close>

definition delta_inserts :: "json \<Rightarrow> exn + json" where
  "delta_inserts data =
     (case getitem data ''delta'' of
        Inl e \<Rightarrow> Inl e
      | Inr delta \<Rightarrow>
          (case getitem0 delta of
             Inl e \<Rightarrow> Inl e
           | Inr first \<Rightarrow> getitem first ''inserts''))"

definition handle_delta_update :: "env \<Rightarrow> world \<Rightarrow> json option \<Rightarrow> reply \<times> world" where
  "handle_delta_update env w body =
     (case body of
        None \<Rightarrow> (Response 400 (Text ''invalid json''), w)
      | Some data \<Rightarrow>
          (case delta_inserts data of
             Inl e \<Rightarrow> (Raised e, w)
           | Inr inserts \<Rightarrow>
               (case stack_inserted inserts of
                  Inl e \<Rightarrow> (Raised e, w)
                | Inr None \<Rightarrow> (Response 200 (Text ''whatever''), w)
                | Inr (Some stack_uri) \<Rightarrow>
                    if truthy stack_uri
                    then link_inserted env w stack_uri
                    else (Response 200 (Text ''whatever''), w))))"


section \<open>Names for what the handlers send and read\<close>

text \<open>The argument list of the \<open>git clone\<close>, the path \<open>docker_compose\<close> opens, and
  the query of \<open>ensure_stack_has_drc\<close>, for a resolved stack.\<close>

definition clone_args :: "stack \<Rightarrow> string list" where
  "clone_args st = [''git'', ''clone'', location st, ''-b'', branch st, ''/data/'' @ uuid st]"

definition manifest_path :: "stack \<Rightarrow> string" where
  "manifest_path st = path_join (''/data/'' @ uuid st) ''docker-compose.yml''"

definition ask_effect :: "stack \<Rightarrow> effect" where
  "ask_effect st = Sparql_query (Ask_drc (Escaped (uuid st)))"

text \<open>The two updates of a provisioning, and the triples of the manifest the first
  one describes.\<close>

definition insert_request :: "env \<Rightarrow> string \<Rightarrow> stack \<Rightarrow> update" where
  "insert_request env text st =
     Insert_drc (Raw (drc_uri_of (uuid1_hex env))) (Escaped (uuid1_hex env)) (Escaped text)
       (Escaped (''stack_'' @ uuid st @ ''_drc_'' @ uuid1_hex env))"

definition relink_request :: "string \<Rightarrow> stack \<Rightarrow> update" where
  "relink_request drc_uri st = Relink (Raw (stack_uri_of (uuid st))) (Raw drc_uri)"

definition manifest_triples :: "env \<Rightarrow> string \<Rightarrow> stack \<Rightarrow> rdf_triple list" where
  "manifest_triples env text st =
     [(drc_uri_of (uuid1_hex env), rdf_type, IRI DockerCompose),
      (drc_uri_of (uuid1_hex env), mu_uuid, Lit (uuid1_hex env)),
      (drc_uri_of (uuid1_hex env), stackbuilder_text, Lit text),
      (drc_uri_of (uuid1_hex env), dct_title,
       Lit (''stack_'' @ uuid st @ ''_drc_'' @ uuid1_hex env))]"

text \<open>The body of the documented shape \<open>{delta: [{inserts: [...]}]}\<close>.\<close>

definition delta_body :: "json list \<Rightarrow> json" where
  "delta_body elems = JObj [(''delta'', JArr [JObj [(''inserts'', JArr elems)]])]"

text \<open>
  The text of the relink update as the store receives it, when the client puts each
  argument into the hole of its name as it was given: \<open>esc\<close> is the text the library's
  \<open>escape_string\<close> makes of a string, \<open>g\<close> the configured graph. A run of white
  space of the template is written as one blank.
\<close>

fun interpolate :: "(string \<Rightarrow> string) \<Rightarrow> arg \<Rightarrow> string" where
  "interpolate esc (Escaped s) = esc s"
| "interpolate esc (Raw s) = s"

definition relink_text :: "(string \<Rightarrow> string) \<Rightarrow> string \<Rightarrow> arg \<Rightarrow> arg \<Rightarrow> string" where
  "relink_text esc g stack_uri drc_uri =
     ''PREFIX swarmui: <http://swarmui.semte.ch/vocabularies/core/> '' @
     ''DELETE { GRAPH '' @ g @ '' { <'' @ interpolate esc stack_uri @
       ''> swarmui:dockerComposeFile ?s. } } '' @
     ''WHERE { GRAPH '' @ g @ '' { OPTIONAL { <'' @ interpolate esc stack_uri @
       ''> swarmui:dockerComposeFile ?s. } } }; '' @
     ''INSERT DATA { GRAPH '' @ g @ '' { <'' @ interpolate esc stack_uri @
       ''> swarmui:dockerComposeFile <'' @ interpolate esc drc_uri @ ''>. } }''"


section \<open>Concrete stacks, graphs and environments\<close>

definition stack_abc :: stack where
  "stack_abc = \<lparr>uuid = ''abc'', location = ''https://example.test/r.git'', branch = ''main''\<rparr>"

text \<open>A graph that knows the stack and links it to nothing, and one where it is
  linked to a manifest.\<close>

definition world_unlinked :: world where
  "world_unlinked = \<lparr>graph = [(stack_uri_of ''abc'', mu_uuid, Lit ''abc'')], trace = []\<rparr>"

definition world_linked :: world where
  "world_linked =
     \<lparr>graph = [(stack_uri_of ''abc'', dockerComposeFile, IRI (drc_uri_of ''d0'')),
               (stack_uri_of ''abc'', mu_uuid, Lit ''abc'')],
      trace = []\<rparr>"

definition lookup_abc :: "graph \<Rightarrow> json \<Rightarrow> exn + stack" where
  "lookup_abc g uri =
     (if uri = JStr (stack_uri_of ''abc'') then Inr stack_abc else Inl NotFoundError)"

text \<open>Four environments: the clone succeeds and the manifest is there; the clone
  exits with 128; the clone runs into the timeout; the clone succeeds and leaves
  no manifest. In each the store refuses a request that is not the template's.\<close>

definition refusing :: "update \<Rightarrow> graph \<Rightarrow> exn + graph" where
  "refusing u g = Inl SPARQLRequestFailed"

definition env_fetched :: env where
  "env_fetched =
     \<lparr>subprocess = (\<lambda>args. Exited 0), files = (\<lambda>path. Some ''version: 3''),
      uuid1 = 1, lookup = lookup_abc, store_query = (\<lambda>q g. False), store_update = refusing\<rparr>"

definition env_exit128 :: env where
  "env_exit128 =
     \<lparr>subprocess = (\<lambda>args. Exited 128), files = (\<lambda>path. None),
      uuid1 = 1, lookup = lookup_abc, store_query = (\<lambda>q g. False), store_update = refusing\<rparr>"

definition env_timeout :: env where
  "env_timeout =
     \<lparr>subprocess = (\<lambda>args. Timeout None), files = (\<lambda>path. None),
      uuid1 = 1, lookup = lookup_abc, store_query = (\<lambda>q g. False), store_update = refusing\<rparr>"

definition env_no_manifest :: env where
  "env_no_manifest =
     \<lparr>subprocess = (\<lambda>args. Exited 0), files = (\<lambda>path. None),
      uuid1 = 1, lookup = lookup_abc, store_query = (\<lambda>q g. False), store_update = refusing\<rparr>"

text \<open>A stack identifier that closes the IRI it is put into.\<close>

definition stack_breaking :: stack where
  "stack_breaking =
     \<lparr>uuid = ''x> <p> <o>. <y'', location = ''https://example.test/r.git'', branch = ''main''\<rparr>"





section \<open>Properties of the change filter\<close>

lemma is_triple_triple_json: "is_triple (triple_json t) t"
  by (simp add: is_triple_def triple_json_def term_json_def field_value_def)

lemma is_stack_insert_triple:
  "is_triple elem t \<Longrightarrow> is_stack_insert elem = Inr (qualifies t)"
  by (auto simp: is_triple_def is_stack_insert_def qualifies_def)

lemma comprehension_triples:
  "list_all2 is_triple elems ts \<Longrightarrow>
   comprehension elems = Inr (map (\<lambda>t. JStr (subj t)) (filter qualifies ts))"
proof (induction elems ts rule: list_all2_induct)
  case Nil
  then show ?case by simp
next
  case (Cons elem elems t ts)
  have q: "is_stack_insert elem = Inr (qualifies t)"
    using Cons.hyps(1) by (rule is_stack_insert_triple)
  have s: "field_value elem ''s'' = Inr (JStr (subj t))"
    using Cons.hyps(1) by (simp add: is_triple_def)
  show ?case
    by (simp add: q s Cons.IH)
qed

lemma hd_filter_find:
  "(case map f (filter P xs) of [] \<Rightarrow> None | y # _ \<Rightarrow> Some y) = map_option f (find P xs)"
  by (induction xs) auto

text \<open>
  C3. For every sequence of inserted triples, the change filter returns the subject
  of the first triple (in input order) whose predicate is rdf:type and whose object
  is the Stack type, and None when no triple of the sequence qualifies; triples
  with another predicate or object are skipped.
\<close>

theorem stack_inserted_first_qualifying:
  assumes "list_all2 is_triple elems ts"
  shows "stack_inserted (JArr elems) =
           Inr (map_option (\<lambda>t. JStr (subj t)) (find qualifies ts))"
  using comprehension_triples [OF assms]
  by (simp add: stack_inserted_def hd_filter_find)

theorem stack_inserted_first_qualifying_witness:
  "list_all2 is_triple
     [triple_json \<lparr>subj = ''a'', pred = ''p'', obj = doap_Stack\<rparr>,
      triple_json \<lparr>subj = ''S1'', pred = rdf_type, obj = doap_Stack\<rparr>,
      triple_json \<lparr>subj = ''S2'', pred = rdf_type, obj = doap_Stack\<rparr>]
     [\<lparr>subj = ''a'', pred = ''p'', obj = doap_Stack\<rparr>,
      \<lparr>subj = ''S1'', pred = rdf_type, obj = doap_Stack\<rparr>,
      \<lparr>subj = ''S2'', pred = rdf_type, obj = doap_Stack\<rparr>] \<and>
   stack_inserted (JArr
     [triple_json \<lparr>subj = ''a'', pred = ''p'', obj = doap_Stack\<rparr>,
      triple_json \<lparr>subj = ''S1'', pred = rdf_type, obj = doap_Stack\<rparr>,
      triple_json \<lparr>subj = ''S2'', pred = rdf_type, obj = doap_Stack\<rparr>]) =
     Inr (Some (JStr ''S1''))"
proof -
  have h: "list_all2 is_triple
     [triple_json \<lparr>subj = ''a'', pred = ''p'', obj = doap_Stack\<rparr>,
      triple_json \<lparr>subj = ''S1'', pred = rdf_type, obj = doap_Stack\<rparr>,
      triple_json \<lparr>subj = ''S2'', pred = rdf_type, obj = doap_Stack\<rparr>]
     [\<lparr>subj = ''a'', pred = ''p'', obj = doap_Stack\<rparr>,
      \<lparr>subj = ''S1'', pred = rdf_type, obj = doap_Stack\<rparr>,
      \<lparr>subj = ''S2'', pred = rdf_type, obj = doap_Stack\<rparr>]"
    by (simp add: is_triple_triple_json)
  have r: "''p'' \<noteq> rdf_type"
    by (simp add: rdf_type_def)
  show ?thesis
    using h stack_inserted_first_qualifying [OF h] r
    by (simp add: qualifies_def)
qed


section \<open>Properties of the graph operations\<close>

lemma pred_distinct:
  "mu_uuid \<noteq> dockerComposeFile" "rdf_type \<noteq> dockerComposeFile"
  "stackbuilder_text \<noteq> dockerComposeFile" "dct_title \<noteq> dockerComposeFile"
  "dockerComposeFile \<noteq> rdf_type" "mu_uuid \<noteq> rdf_type"
  "stackbuilder_text \<noteq> rdf_type" "dct_title \<noteq> rdf_type"
  by (simp_all add: mu_uuid_def dockerComposeFile_def rdf_type_def stackbuilder_text_def dct_title_def)

lemma set_insert_data: "set (insert_data ts g) = set ts \<union> set g"
  unfolding insert_data_def by (induction ts arbitrary: g) auto

lemma set_delete_links:
  "set (delete_links s g) = {t \<in> set g. \<not> (fst t = s \<and> fst (snd t) = dockerComposeFile)}"
  by (auto simp: delete_links_def)

lemma stack_links_delete_same: "stack_links (delete_links s g) s = []"
  by (induction g) (auto simp: stack_links_def delete_links_def)

lemma stack_links_delete_other: "s' \<noteq> s \<Longrightarrow> stack_links (delete_links s g) s' = stack_links g s'"
  by (induction g) (auto simp: stack_links_def delete_links_def)

lemma stack_links_insert_other:
  "p \<noteq> dockerComposeFile \<or> s' \<noteq> s \<Longrightarrow> stack_links (List.insert (s', p, x) g) s = stack_links g s"
  by (auto simp: stack_links_def List.insert_def)

lemma stack_links_empty_iff: "stack_links g s = [] \<longleftrightarrow> (\<forall>x. (s, dockerComposeFile, x) \<notin> set g)"
  by (auto simp: stack_links_def filter_empty_conv)

lemma stack_links_Cons:
  "stack_links ((s', p, x) # g) s =
     (if s' = s \<and> p = dockerComposeFile then x # stack_links g s else stack_links g s)"
  by (simp add: stack_links_def)

lemma stack_links_insert_new:
  assumes "stack_links g s = []"
  shows "stack_links (List.insert (s, dockerComposeFile, x) g) s = [x]"
proof -
  have "(s, dockerComposeFile, x) \<notin> set g"
    using assms by (simp add: stack_links_empty_iff)
  then have "List.insert (s, dockerComposeFile, x) g = (s, dockerComposeFile, x) # g"
    by (simp add: List.insert_def)
  then show ?thesis
    using assms by (simp add: stack_links_Cons)
qed

lemma stack_links_relink_same:
  "stack_links (insert_data [(s, dockerComposeFile, IRI d)] (delete_links s g)) s = [IRI d]"
  by (simp add: insert_data_def stack_links_insert_new stack_links_delete_same)

lemma stack_links_relink_other:
  "s' \<noteq> s \<Longrightarrow>
   stack_links (insert_data [(s, dockerComposeFile, IRI d)] (delete_links s g)) s' =
     stack_links g s'"
  by (simp add: insert_data_def stack_links_insert_other stack_links_delete_other)

lemma manifests_insert_other:
  "p \<noteq> rdf_type \<Longrightarrow> manifests (List.insert (s, p, x) g) = manifests g"
  by (auto simp: manifests_def List.insert_def)

lemma manifests_mem: "s \<in> set (manifests g) \<longleftrightarrow> (s, rdf_type, IRI DockerCompose) \<in> set g"
  by (force simp: manifests_def)

lemma manifests_delete_links: "manifests (delete_links s g) = manifests g"
  by (induction g) (auto simp: manifests_def delete_links_def pred_distinct)

lemma manifests_relink:
  "manifests (insert_data [(s, dockerComposeFile, IRI d)] (delete_links s g)) = manifests g"
  by (simp add: insert_data_def manifests_insert_other manifests_delete_links pred_distinct)

lemma ask_drc_iff:
  "ask_drc g u \<longleftrightarrow> (\<exists>s y. (s, mu_uuid, Lit u) \<in> set g \<and> (s, dockerComposeFile, y) \<in> set g)"
  by (auto simp: ask_drc_def list_ex_iff) blast

lemma at_most_one_link_iff: "at_most_one_link g \<longleftrightarrow> (\<forall>s. length (stack_links g s) \<le> 1)"
proof
  assume a: "at_most_one_link g"
  show "\<forall>s. length (stack_links g s) \<le> 1"
  proof
    fix s
    show "length (stack_links g s) \<le> 1"
    proof (cases "stack_links g s = []")
      case True
      then show ?thesis by simp
    next
      case False
      then obtain x where "(s, dockerComposeFile, x) \<in> set g"
        by (auto simp: stack_links_empty_iff)
      with a have "length (stack_links g (fst (s, dockerComposeFile, x))) \<le> 1"
        unfolding at_most_one_link_def list_all_iff by blast
      then show ?thesis by simp
    qed
  qed
next
  assume "\<forall>s. length (stack_links g s) \<le> 1"
  then show "at_most_one_link g"
    by (simp add: at_most_one_link_def list_all_iff)
qed


section \<open>Well-formed IRIs\<close>

lemma iri_safe_append: "iri_safe (a @ b) \<longleftrightarrow> iri_safe a \<and> iri_safe b"
  by (simp add: iri_safe_def)

lemma iri_safe_stack_uri_of: "iri_safe (stack_uri_of u) \<longleftrightarrow> iri_safe u"
  by (simp add: stack_uri_of_def iri_safe_def iri_char_def)

lemma iri_safe_drc_uri_of: "iri_safe (drc_uri_of u) \<longleftrightarrow> iri_safe u"
  by (simp add: drc_uri_of_def iri_safe_def iri_char_def)

lemma as_iri_stack_uri_of:
  "iri_safe (stack_uri_of u) \<Longrightarrow> as_iri (Raw (stack_uri_of u)) = Some (stack_uri_of u)"
  by (simp add: stack_uri_of_def)

lemma as_iri_drc_uri_of:
  "iri_safe (drc_uri_of u) \<Longrightarrow> as_iri (Raw (drc_uri_of u)) = Some (drc_uri_of u)"
  by (simp add: drc_uri_of_def)

lemma iri_char_hex_digit: "iri_char (hex_digit d)"
proof -
  have "list_all iri_char ''0123456789abcdef''"
    by (simp add: iri_char_def)
  moreover have "d mod 16 < length ''0123456789abcdef''"
    by simp
  ultimately show ?thesis
    unfolding hex_digit_def list_all_length by blast
qed

lemma iri_safe_hex: "iri_safe (hex k n)"
  by (induction k arbitrary: n) (simp_all add: iri_safe_def iri_char_hex_digit)

lemma iri_safe_new_manifest: "iri_safe (drc_uri_of (uuid1_hex env))"
  by (simp add: iri_safe_drc_uri_of uuid1_hex_def iri_safe_hex)

lemma wf_graph_insert_data: "wf_graph (insert_data ts g) \<longleftrightarrow> wf_graph ts \<and> wf_graph g"
  by (simp add: wf_graph_def list_all_iff set_insert_data ball_Un)

lemma wf_graph_delete_links: "wf_graph g \<Longrightarrow> wf_graph (delete_links s g)"
  unfolding wf_graph_def list_all_iff delete_links_def set_filter by blast

lemma iri_safe_vocabulary:
  "iri_safe rdf_type" "iri_safe DockerCompose" "iri_safe mu_uuid" "iri_safe stackbuilder_text"
  "iri_safe dct_title" "iri_safe dockerComposeFile"
  by (simp_all add: iri_safe_def iri_char_def rdf_type_def DockerCompose_def mu_uuid_def
      stackbuilder_text_def dct_title_def dockerComposeFile_def)

lemma wf_graph_manifest_triples: "wf_graph (manifest_triples env text st)"
  by (simp add: wf_graph_def manifest_triples_def iri_safe_new_manifest iri_safe_vocabulary)

lemma wf_graph_subject: "wf_graph g \<Longrightarrow> (s, p, x) \<in> set g \<Longrightarrow> iri_safe s"
  by (auto simp: wf_graph_def list_all_iff)


section \<open>Properties of the workflow steps\<close>

lemma graph_emit [simp]: "graph (emit es w) = graph w"
  by (simp add: emit_def)

lemma trace_emit [simp]: "trace (emit es w) = trace w @ es"
  by (simp add: emit_def)

lemma emit_emit: "emit es (emit ds w) = emit (ds @ es) w"
  by (simp add: emit_def)

lemma sparql_update_insert:
  "sparql_update env w (insert_request env text st) =
     (Inr (), \<lparr>graph = insert_data (manifest_triples env text st) (graph w),
               trace = trace w @ [Sparql_update (insert_request env text st)]\<rparr>)"
  by (simp add: sparql_update_def insert_request_def manifest_triples_def
      as_iri_drc_uri_of [OF iri_safe_new_manifest] del: as_iri.simps)

lemma sparql_update_relink:
  assumes "iri_safe (stack_uri_of (uuid st))" and "iri_safe (drc_uri_of h)"
  shows "sparql_update env w (relink_request (drc_uri_of h) st) =
     (Inr (), \<lparr>graph = insert_data
                          [(stack_uri_of (uuid st), dockerComposeFile, IRI (drc_uri_of h))]
                          (delete_links (stack_uri_of (uuid st)) (graph w)),
               trace = trace w @ [Sparql_update (relink_request (drc_uri_of h) st)]\<rparr>)"
  by (simp add: sparql_update_def relink_request_def as_iri_stack_uri_of [OF assms(1)]
      as_iri_drc_uri_of [OF assms(2)] del: as_iri.simps)

lemma update_stack_drc_request:
  "update_stack_drc env w d st = sparql_update env w (relink_request d st)"
  by (simp add: update_stack_drc_def relink_request_def)

lemma create_drc_db_None: "create_drc_db env w None st = (Inl AttributeError, w)"
  by (simp add: create_drc_db_def escape_string_def)

lemma create_drc_db_Some:
  "create_drc_db env w (Some text) st =
     (Inr (drc_uri_of (uuid1_hex env)),
      \<lparr>graph = insert_data (manifest_triples env text st) (graph w),
       trace = trace w @ [Sparql_update (insert_request env text st)]\<rparr>)"
  using sparql_update_insert [of env w "text" st]
  by (simp add: create_drc_db_def escape_string_def Let_def insert_request_def)

lemma persist_and_link_None:
  "persist_and_link env w ref None st = (Response 500 (Conflict_envelope ref), w)"
  by (simp add: persist_and_link_def create_drc_db_None)

lemma persist_and_link_Some:
  assumes "iri_safe (stack_uri_of (uuid st))"
  shows "persist_and_link env w ref (Some text) st =
     (Response 200 Success_envelope,
      \<lparr>graph = insert_data
                 [(stack_uri_of (uuid st), dockerComposeFile, IRI (drc_uri_of (uuid1_hex env)))]
                 (delete_links (stack_uri_of (uuid st))
                    (insert_data (manifest_triples env text st) (graph w))),
       trace = trace w @ [Sparql_update (insert_request env text st),
                          Sparql_update (relink_request (drc_uri_of (uuid1_hex env)) st)]\<rparr>)"
  by (simp add: persist_and_link_def create_drc_db_Some update_stack_drc_request
      sparql_update_relink [OF assms iri_safe_new_manifest])

lemma ensure_stack_has_drc_escapes:
  "ensure_stack_has_drc env w u =
     (Inr (ask_drc (graph w) u), emit [Sparql_query (Ask_drc (Escaped u))] w)"
  by (simp add: ensure_stack_has_drc_def escape_string_def)

lemma docker_compose_linked:
  assumes "resolve env w ref = (Inr st, w1)" and "ask_drc (graph w1) (uuid st)"
  shows "docker_compose env w ref = (Inr (None, st), emit [ask_effect st] w1)"
  using assms
  by (simp add: docker_compose_def ensure_stack_has_drc_escapes ask_effect_def)

lemma docker_compose_exit:
  assumes "resolve env w ref = (Inr st, w1)" and "\<not> ask_drc (graph w1) (uuid st)"
    and "subprocess env (clone_args st) = Exited rc"
  shows "docker_compose env w ref =
     (if rc = 0
      then (case files env (manifest_path st) of
              None \<Rightarrow> Inl FileNotFoundError
            | Some text \<Rightarrow> Inr (Some text, st),
            emit [ask_effect st, Subprocess (clone_args st), Open_file (manifest_path st)] w1)
      else (Inr (None, st), emit [ask_effect st, Subprocess (clone_args st)] w1))"
  using assms
  by (simp add: docker_compose_def ensure_stack_has_drc_escapes ask_effect_def
      run_command_def clone_args_def manifest_path_def emit_def Let_def split: option.splits)

lemma docker_compose_timeout:
  assumes "resolve env w ref = (Inr st, w1)" and "\<not> ask_drc (graph w1) (uuid st)"
    and "subprocess env (clone_args st) = Timeout rc" and "rc \<noteq> Some 0"
  shows "docker_compose env w ref =
     (Inr (None, st), emit [ask_effect st, Subprocess (clone_args st), Terminate] w1)"
  using assms
  by (simp add: docker_compose_def ensure_stack_has_drc_escapes ask_effect_def
      run_command_def clone_args_def emit_def Let_def)

lemma resolve_UUIDStack: "resolve env w (UUIDStack st) = (Inr st, w)"
  by (simp add: resolve_def)

lemma resolve_URIStack:
  "lookup env (graph w) uri = Inr st \<Longrightarrow> resolve env w (URIStack uri) = (Inr st, emit [Lookup uri] w)"
  by (simp add: resolve_def)

lemma handle_fetch_drc_linked:
  assumes "ask_drc (graph w) (uuid st)"
  shows "handle_fetch_drc env w (Some st) =
           (Response 500 (Conflict_envelope (UUIDStack st)), emit [ask_effect st] w)"
  using docker_compose_linked [OF resolve_UUIDStack assms, of env]
  by (simp add: handle_fetch_drc_def persist_and_link_None)

lemma handle_fetch_drc_fetched:
  assumes "\<not> ask_drc (graph w) (uuid st)"
    and "subprocess env (clone_args st) = Exited 0"
    and "files env (manifest_path st) = Some text"
    and "iri_safe (stack_uri_of (uuid st))"
  shows "handle_fetch_drc env w (Some st) =
     (Response 200 Success_envelope,
      \<lparr>graph = insert_data
                 [(stack_uri_of (uuid st), dockerComposeFile, IRI (drc_uri_of (uuid1_hex env)))]
                 (delete_links (stack_uri_of (uuid st))
                    (insert_data (manifest_triples env text st) (graph w))),
       trace = trace w @ [ask_effect st, Subprocess (clone_args st),
                          Open_file (manifest_path st),
                          Sparql_update (insert_request env text st),
                          Sparql_update (relink_request (drc_uri_of (uuid1_hex env)) st)]\<rparr>)"
  using docker_compose_exit [OF resolve_UUIDStack assms(1) assms(2)] assms(3)
  by (simp add: handle_fetch_drc_def persist_and_link_Some [OF assms(4)])

lemma unlinked_abc: "\<not> ask_drc (graph world_unlinked) (uuid stack_abc)"
  by (simp add: ask_drc_def world_unlinked_def pred_distinct)

lemma linked_abc: "ask_drc (graph world_linked) (uuid stack_abc)"
  by (simp add: ask_drc_def world_linked_def stack_abc_def)

lemma wf_graph_world_unlinked: "wf_graph (graph world_unlinked)"
  by (simp add: wf_graph_def world_unlinked_def iri_safe_stack_uri_of)
    (simp add: iri_safe_def iri_char_def mu_uuid_def)


section \<open>Provisioning twice\<close>

text \<open>
  C1. Sequential idempotency of provisioning. Take a graph of the store (its IRIs
  are IRIs) that knows a stack under its identifier (the node is the one
  \<open>update_stack_drc\<close> links) and links no manifest to it, and let the fetch of the
  first request succeed. Then the first call of the direct entry point answers
  with the success envelope, the second with the conflict envelope; the second
  call leaves the graph as the first left it; the stack has exactly one edge to a
  manifest, the one the first call persisted, and that manifest is the only
  manifest entity the two calls added. The graph is again a graph of IRIs.
\<close>

theorem ensure_and_link_twice:
  assumes store: "wf_graph (graph w)"
    and known: "(stack_uri_of (uuid st), mu_uuid, Lit (uuid st)) \<in> set (graph w)"
    and unlinked: "\<not> ask_drc (graph w) (uuid st)"
    and clone: "subprocess env1 (clone_args st) = Exited 0"
    and manifest: "files env1 (manifest_path st) = Some text"
    and first: "handle_fetch_drc env1 w (Some st) = (r1, w1)"
    and second: "handle_fetch_drc env2 w1 (Some st) = (r2, w2)"
  shows "r1 = Response 200 Success_envelope \<and>
         r2 = Response 500 (Conflict_envelope (UUIDStack st)) \<and>
         graph w2 = graph w1 \<and>
         stack_links (graph w2) (stack_uri_of (uuid st)) = [IRI (drc_uri_of (uuid1_hex env1))] \<and>
         set (manifests (graph w2)) = insert (drc_uri_of (uuid1_hex env1)) (set (manifests (graph w))) \<and>
         wf_graph (graph w2)"
proof -
  let ?su = "stack_uri_of (uuid st)"
  let ?m = "drc_uri_of (uuid1_hex env1)"
  let ?g0 = "insert_data (manifest_triples env1 text st) (graph w)"
  let ?g1 = "insert_data [(?su, dockerComposeFile, IRI ?m)] (delete_links ?su ?g0)"
  have safe: "iri_safe ?su"
    using store known by (rule wf_graph_subject)
  from handle_fetch_drc_fetched [OF unlinked clone manifest safe] first
  have r1: "r1 = Response 200 Success_envelope"
    and g1: "graph w1 = ?g1"
    by auto
  have "(?su, mu_uuid, Lit (uuid st)) \<in> set ?g0"
    using known by (simp add: set_insert_data)
  then have k1: "(?su, mu_uuid, Lit (uuid st)) \<in> set ?g1"
    by (simp add: set_insert_data set_delete_links pred_distinct)
  have e1: "(?su, dockerComposeFile, IRI ?m) \<in> set ?g1"
    by (simp add: set_insert_data)
  have linked: "ask_drc (graph w1) (uuid st)"
    unfolding g1 ask_drc_iff using k1 e1 by blast
  from handle_fetch_drc_linked [OF linked, of env2] second
  have r2: "r2 = Response 500 (Conflict_envelope (UUIDStack st))"
    and g2: "graph w2 = graph w1"
    by auto
  have links: "stack_links ?g1 ?su = [IRI ?m]"
    by (rule stack_links_relink_same)
  have "set (manifests ?g1) = set (manifests ?g0)"
    by (simp only: manifests_relink)
  also have "\<dots> = insert ?m (set (manifests (graph w)))"
    by (auto simp: manifests_mem set_insert_data manifest_triples_def pred_distinct)
  finally have mans: "set (manifests ?g1) = insert ?m (set (manifests (graph w)))" .
  have "wf_graph ?g0"
    using store by (simp add: wf_graph_insert_data wf_graph_manifest_triples)
  then have wf1: "wf_graph ?g1"
    using safe
    by (simp add: wf_graph_insert_data wf_graph_delete_links)
      (simp add: wf_graph_def iri_safe_new_manifest iri_safe_vocabulary)
  show ?thesis
    using r1 r2 g2 links mans wf1 by (simp add: g1)
qed

theorem ensure_and_link_twice_witness:
  "wf_graph (graph world_unlinked) \<and>
   (stack_uri_of (uuid stack_abc), mu_uuid, Lit (uuid stack_abc)) \<in> set (graph world_unlinked) \<and>
   \<not> ask_drc (graph world_unlinked) (uuid stack_abc) \<and>
   subprocess env_fetched (clone_args stack_abc) = Exited 0 \<and>
   files env_fetched (manifest_path stack_abc) = Some ''version: 3'' \<and>
   fst (handle_fetch_drc env_fetched world_unlinked (Some stack_abc)) =
     Response 200 Success_envelope \<and>
   fst (handle_fetch_drc env_exit128
          (snd (handle_fetch_drc env_fetched world_unlinked (Some stack_abc))) (Some stack_abc)) =
     Response 500 (Conflict_envelope (UUIDStack stack_abc)) \<and>
   stack_links
     (graph (snd (handle_fetch_drc env_exit128
        (snd (handle_fetch_drc env_fetched world_unlinked (Some stack_abc))) (Some stack_abc))))
     (stack_uri_of (uuid stack_abc)) = [IRI (drc_uri_of (uuid1_hex env_fetched))]"
proof -
  have h1: "(stack_uri_of (uuid stack_abc), mu_uuid, Lit (uuid stack_abc)) \<in> set (graph world_unlinked)"
    by (simp add: world_unlinked_def stack_abc_def)
  have h3: "subprocess env_fetched (clone_args stack_abc) = Exited 0"
    by (simp add: env_fetched_def)
  have h4: "files env_fetched (manifest_path stack_abc) = Some ''version: 3''"
    by (simp add: env_fetched_def)
  note t = ensure_and_link_twice [OF wf_graph_world_unlinked h1 unlinked_abc h3 h4
      surjective_pairing surjective_pairing, of env_exit128]
  show ?thesis
    using wf_graph_world_unlinked h1 unlinked_abc h3 h4 t by blast
qed


section \<open>Failures of the fetch\<close>

text \<open>
  C2, as the code has it. When the clone exits with a status other than 0, the
  workflow stops before any update: the graph is unchanged and the only effects are
  the query (after the lookup of a \<open>URIStack\<close>) and the subprocess. The reply is the
  conflict envelope with status 500, in both entry points; there is no outcome of
  its own for a failed fetch.
\<close>

theorem fetch_failure_writes_nothing:
  assumes "\<not> ask_drc (graph w) (uuid st)"
    and "subprocess env (clone_args st) = Exited rc"
    and "rc \<noteq> 0"
  shows "handle_fetch_drc env w (Some st) =
           (Response 500 (Conflict_envelope (UUIDStack st)),
            emit [ask_effect st, Subprocess (clone_args st)] w) \<and>
         graph (snd (handle_fetch_drc env w (Some st))) = graph w \<and>
         (lookup env (graph w) uri = Inr st \<longrightarrow>
            link_inserted env w uri =
              (Response 500 (Conflict_envelope (URIStack uri)),
               emit [Lookup uri, ask_effect st, Subprocess (clone_args st)] w))"
proof -
  have a: "handle_fetch_drc env w (Some st) =
           (Response 500 (Conflict_envelope (UUIDStack st)),
            emit [ask_effect st, Subprocess (clone_args st)] w)"
    using docker_compose_exit [OF resolve_UUIDStack assms(1) assms(2)] assms(3)
    by (simp add: handle_fetch_drc_def persist_and_link_None)
  have b: "link_inserted env w uri =
              (Response 500 (Conflict_envelope (URIStack uri)),
               emit [Lookup uri, ask_effect st, Subprocess (clone_args st)] w)"
    if l: "lookup env (graph w) uri = Inr st"
  proof -
    have "\<not> ask_drc (graph (emit [Lookup uri] w)) (uuid st)"
      using assms(1) by simp
    from docker_compose_exit [OF resolve_URIStack [OF l] this assms(2)] assms(3)
    show ?thesis
      by (simp add: link_inserted_def persist_and_link_None emit_emit)
  qed
  show ?thesis
    using a b by simp
qed

text \<open>
  C2 as stated fails: for a stack without a manifest whose clone exits with 128, the
  reply is the one an already linked stack gets, and names no fetch failure.
\<close>

theorem fetch_failure_reply_is_conflict:
  "\<not> ask_drc (graph world_unlinked) (uuid stack_abc) \<and>
   subprocess env_exit128 (clone_args stack_abc) = Exited 128 \<and>
   fst (handle_fetch_drc env_exit128 world_unlinked (Some stack_abc)) =
     Response 500 (Conflict_envelope (UUIDStack stack_abc)) \<and>
   fst (handle_fetch_drc env_exit128 world_linked (Some stack_abc)) =
     Response 500 (Conflict_envelope (UUIDStack stack_abc))"
proof -
  have e: "subprocess env_exit128 (clone_args stack_abc) = Exited 128"
    by (simp add: env_exit128_def)
  have "handle_fetch_drc env_exit128 world_unlinked (Some stack_abc) =
          (Response 500 (Conflict_envelope (UUIDStack stack_abc)),
           emit [ask_effect stack_abc, Subprocess (clone_args stack_abc)] world_unlinked)"
    using docker_compose_exit [OF resolve_UUIDStack unlinked_abc e]
    by (simp add: handle_fetch_drc_def persist_and_link_None)
  then show ?thesis
    using unlinked_abc e handle_fetch_drc_linked [OF linked_abc, of env_exit128] by simp
qed

theorem fetch_failure_writes_nothing_witness:
  "\<not> ask_drc (graph world_unlinked) (uuid stack_abc) \<and>
   subprocess env_exit128 (clone_args stack_abc) = Exited 128 \<and>
   (128::int) \<noteq> 0 \<and>
   lookup env_exit128 (graph world_unlinked) (JStr (stack_uri_of ''abc'')) = Inr stack_abc \<and>
   graph (snd (handle_fetch_drc env_exit128 world_unlinked (Some stack_abc))) =
     graph world_unlinked \<and>
   link_inserted env_exit128 world_unlinked (JStr (stack_uri_of ''abc'')) =
     (Response 500 (Conflict_envelope (URIStack (JStr (stack_uri_of ''abc'')))),
      emit [Lookup (JStr (stack_uri_of ''abc'')), ask_effect stack_abc,
            Subprocess (clone_args stack_abc)] world_unlinked)"
proof -
  have e: "subprocess env_exit128 (clone_args stack_abc) = Exited 128"
    by (simp add: env_exit128_def)
  have n: "(128::int) \<noteq> 0"
    by simp
  have l: "lookup env_exit128 (graph world_unlinked) (JStr (stack_uri_of ''abc'')) = Inr stack_abc"
    by (simp add: env_exit128_def lookup_abc_def)
  show ?thesis
    using e l fetch_failure_writes_nothing [OF unlinked_abc e n, of "JStr (stack_uri_of ''abc'')"]
      unlinked_abc
    by simp
qed


text \<open>
  C6, as the code has it. When the clone exits with 0 and \<open>docker-compose.yml\<close> is
  not in the workspace, opening it raises \<open>FileNotFoundError\<close>; neither handler
  catches it, so the condition is not swallowed, but it leaves the handler as a
  bare exception and not as a reply of its own. No update has been sent by then.
\<close>

theorem missing_manifest_raises:
  assumes "\<not> ask_drc (graph w) (uuid st)"
    and "subprocess env (clone_args st) = Exited 0"
    and "files env (manifest_path st) = None"
  shows "handle_fetch_drc env w (Some st) =
           (Raised FileNotFoundError,
            emit [ask_effect st, Subprocess (clone_args st), Open_file (manifest_path st)] w) \<and>
         graph (snd (handle_fetch_drc env w (Some st))) = graph w \<and>
         (lookup env (graph w) uri = Inr st \<longrightarrow>
            link_inserted env w uri =
              (Raised FileNotFoundError,
               emit [Lookup uri, ask_effect st, Subprocess (clone_args st),
                     Open_file (manifest_path st)] w))"
proof -
  have a: "handle_fetch_drc env w (Some st) =
           (Raised FileNotFoundError,
            emit [ask_effect st, Subprocess (clone_args st), Open_file (manifest_path st)] w)"
    using docker_compose_exit [OF resolve_UUIDStack assms(1) assms(2)] assms(3)
    by (simp add: handle_fetch_drc_def)
  have b: "link_inserted env w uri =
              (Raised FileNotFoundError,
               emit [Lookup uri, ask_effect st, Subprocess (clone_args st),
                     Open_file (manifest_path st)] w)"
    if l: "lookup env (graph w) uri = Inr st"
  proof -
    have "\<not> ask_drc (graph (emit [Lookup uri] w)) (uuid st)"
      using assms(1) by simp
    from docker_compose_exit [OF resolve_URIStack [OF l] this assms(2)] assms(3)
    show ?thesis
      by (simp add: link_inserted_def emit_emit)
  qed
  show ?thesis
    using a b by simp
qed

text \<open>
  C6 as stated fails: with a successful clone and no \<open>docker-compose.yml\<close> the
  handler ends in an uncaught \<open>FileNotFoundError\<close>.
\<close>

theorem missing_manifest_is_uncaught:
  "subprocess env_no_manifest (clone_args stack_abc) = Exited 0 \<and>
   files env_no_manifest (manifest_path stack_abc) = None \<and>
   fst (handle_fetch_drc env_no_manifest world_unlinked (Some stack_abc)) =
     Raised FileNotFoundError"
proof -
  have e: "subprocess env_no_manifest (clone_args stack_abc) = Exited 0"
    by (simp add: env_no_manifest_def)
  have f: "files env_no_manifest (manifest_path stack_abc) = None"
    by (simp add: env_no_manifest_def)
  show ?thesis
    using e f docker_compose_exit [OF resolve_UUIDStack unlinked_abc e]
    by (simp add: handle_fetch_drc_def)
qed

theorem missing_manifest_raises_witness:
  "\<not> ask_drc (graph world_unlinked) (uuid stack_abc) \<and>
   subprocess env_no_manifest (clone_args stack_abc) = Exited 0 \<and>
   files env_no_manifest (manifest_path stack_abc) = None \<and>
   lookup env_no_manifest (graph world_unlinked) (JStr (stack_uri_of ''abc'')) = Inr stack_abc \<and>
   graph (snd (handle_fetch_drc env_no_manifest world_unlinked (Some stack_abc))) =
     graph world_unlinked \<and>
   link_inserted env_no_manifest world_unlinked (JStr (stack_uri_of ''abc'')) =
     (Raised FileNotFoundError,
      emit [Lookup (JStr (stack_uri_of ''abc'')), ask_effect stack_abc,
            Subprocess (clone_args stack_abc), Open_file (manifest_path stack_abc)]
        world_unlinked)"
proof -
  have e: "subprocess env_no_manifest (clone_args stack_abc) = Exited 0"
    by (simp add: env_no_manifest_def)
  have f: "files env_no_manifest (manifest_path stack_abc) = None"
    by (simp add: env_no_manifest_def)
  have l: "lookup env_no_manifest (graph world_unlinked) (JStr (stack_uri_of ''abc'')) =
             Inr stack_abc"
    by (simp add: env_no_manifest_def lookup_abc_def)
  show ?thesis
    using e f l unlinked_abc
      missing_manifest_raises [OF unlinked_abc e f, of "JStr (stack_uri_of ''abc'')"]
    by simp
qed

text \<open>
  C7, as the code has it. When the wait for the clone times out, \<open>run_command\<close>
  calls \<open>terminate()\<close> once and returns the return code it finds without waiting
  for the child. With that code other than 0 (None for a child still running) the
  workflow stops before any update, so no manifest is persisted; the reply is the
  conflict envelope with status 500, as there is no timeout outcome.
\<close>

theorem timeout_terminates_and_persists_nothing:
  assumes "\<not> ask_drc (graph w) (uuid st)"
    and "subprocess env (clone_args st) = Timeout rc"
    and "rc \<noteq> Some 0"
  shows "run_command env w (clone_args st) =
           (rc, emit [Subprocess (clone_args st), Terminate] w) \<and>
         handle_fetch_drc env w (Some st) =
           (Response 500 (Conflict_envelope (UUIDStack st)),
            emit [ask_effect st, Subprocess (clone_args st), Terminate] w) \<and>
         manifests (graph (snd (handle_fetch_drc env w (Some st)))) = manifests (graph w) \<and>
         (lookup env (graph w) uri = Inr st \<longrightarrow>
            link_inserted env w uri =
              (Response 500 (Conflict_envelope (URIStack uri)),
               emit [Lookup uri, ask_effect st, Subprocess (clone_args st), Terminate] w))"
proof -
  have r: "run_command env w (clone_args st) =
           (rc, emit [Subprocess (clone_args st), Terminate] w)"
    using assms(2) by (simp add: run_command_def)
  have a: "handle_fetch_drc env w (Some st) =
           (Response 500 (Conflict_envelope (UUIDStack st)),
            emit [ask_effect st, Subprocess (clone_args st), Terminate] w)"
    using docker_compose_timeout [OF resolve_UUIDStack assms]
    by (simp add: handle_fetch_drc_def persist_and_link_None)
  have b: "link_inserted env w uri =
              (Response 500 (Conflict_envelope (URIStack uri)),
               emit [Lookup uri, ask_effect st, Subprocess (clone_args st), Terminate] w)"
    if l: "lookup env (graph w) uri = Inr st"
  proof -
    have "\<not> ask_drc (graph (emit [Lookup uri] w)) (uuid st)"
      using assms(1) by simp
    from docker_compose_timeout [OF resolve_URIStack [OF l] this assms(2) assms(3)]
    show ?thesis
      by (simp add: link_inserted_def persist_and_link_None emit_emit)
  qed
  show ?thesis
    using r a b by simp
qed

text \<open>
  C7 as stated fails: after a timeout the reply is the conflict envelope of an
  already linked stack, not a timeout failure.
\<close>

theorem timeout_reply_is_conflict:
  "subprocess env_timeout (clone_args stack_abc) = Timeout None \<and>
   fst (handle_fetch_drc env_timeout world_unlinked (Some stack_abc)) =
     Response 500 (Conflict_envelope (UUIDStack stack_abc)) \<and>
   fst (handle_fetch_drc env_timeout world_linked (Some stack_abc)) =
     Response 500 (Conflict_envelope (UUIDStack stack_abc))"
proof -
  have e: "subprocess env_timeout (clone_args stack_abc) = Timeout None"
    by (simp add: env_timeout_def)
  have n: "None \<noteq> Some (0::int)"
    by simp
  show ?thesis
    using e docker_compose_timeout [OF resolve_UUIDStack unlinked_abc e n]
      handle_fetch_drc_linked [OF linked_abc, of env_timeout]
    by (simp add: handle_fetch_drc_def persist_and_link_None)
qed

theorem timeout_terminates_and_persists_nothing_witness:
  "\<not> ask_drc (graph world_unlinked) (uuid stack_abc) \<and>
   subprocess env_timeout (clone_args stack_abc) = Timeout None \<and>
   None \<noteq> Some (0::int) \<and>
   lookup env_timeout (graph world_unlinked) (JStr (stack_uri_of ''abc'')) = Inr stack_abc \<and>
   run_command env_timeout world_unlinked (clone_args stack_abc) =
     (None, emit [Subprocess (clone_args stack_abc), Terminate] world_unlinked) \<and>
   manifests (graph (snd (handle_fetch_drc env_timeout world_unlinked (Some stack_abc)))) =
     manifests (graph world_unlinked) \<and>
   link_inserted env_timeout world_unlinked (JStr (stack_uri_of ''abc'')) =
     (Response 500 (Conflict_envelope (URIStack (JStr (stack_uri_of ''abc'')))),
      emit [Lookup (JStr (stack_uri_of ''abc'')), ask_effect stack_abc,
            Subprocess (clone_args stack_abc), Terminate] world_unlinked)"
proof -
  have e: "subprocess env_timeout (clone_args stack_abc) = Timeout None"
    by (simp add: env_timeout_def)
  have n: "None \<noteq> Some (0::int)"
    by simp
  have l: "lookup env_timeout (graph world_unlinked) (JStr (stack_uri_of ''abc'')) = Inr stack_abc"
    by (simp add: env_timeout_def lookup_abc_def)
  show ?thesis
    using e l unlinked_abc
      timeout_terminates_and_persists_nothing [OF unlinked_abc e n,
        of "JStr (stack_uri_of ''abc'')"]
    by simp
qed


section \<open>The relink update\<close>


text \<open>
  For a stack and a manifest whose IRIs are IRIs, \<open>update_stack_drc\<close> sends one
  update; the store removes every manifest edge of the stack, whether there is one
  or not, and adds the edge to the manifest, so that the stack has exactly that
  edge afterwards and every other subject keeps its edges. A graph in which every
  subject has at most one manifest edge is again such a graph.
\<close>

lemma relink_of_iris_keeps_at_most_one_link:
  assumes "iri_safe (stack_uri_of (uuid st))" and "iri_safe (drc_uri_of h)"
  shows "fst (update_stack_drc env w (drc_uri_of h) st) = Inr () \<and>
   trace (snd (update_stack_drc env w (drc_uri_of h) st)) =
     trace w @ [Sparql_update (relink_request (drc_uri_of h) st)] \<and>
   stack_links (graph (snd (update_stack_drc env w (drc_uri_of h) st))) (stack_uri_of (uuid st)) =
     [IRI (drc_uri_of h)] \<and>
   (\<forall>s. s \<noteq> stack_uri_of (uuid st) \<longrightarrow>
        stack_links (graph (snd (update_stack_drc env w (drc_uri_of h) st))) s =
          stack_links (graph w) s) \<and>
   (at_most_one_link (graph w) \<longrightarrow>
      at_most_one_link (graph (snd (update_stack_drc env w (drc_uri_of h) st))))"
proof -
  let ?su = "stack_uri_of (uuid st)"
  let ?w' = "snd (update_stack_drc env w (drc_uri_of h) st)"
  note u = sparql_update_relink [OF assms, of env w]
  have r: "fst (update_stack_drc env w (drc_uri_of h) st) = Inr ()"
    by (simp add: update_stack_drc_request u)
  have g': "graph ?w' =
      insert_data [(?su, dockerComposeFile, IRI (drc_uri_of h))] (delete_links ?su (graph w))"
    by (simp add: update_stack_drc_request u)
  have t: "trace ?w' = trace w @ [Sparql_update (relink_request (drc_uri_of h) st)]"
    by (simp add: update_stack_drc_request u)
  have same: "stack_links (graph ?w') ?su = [IRI (drc_uri_of h)]"
    unfolding g' by (rule stack_links_relink_same)
  have other: "stack_links (graph ?w') s = stack_links (graph w) s" if "s \<noteq> ?su" for s
    unfolding g' using that by (rule stack_links_relink_other)
  have inv: "at_most_one_link (graph ?w')" if a: "at_most_one_link (graph w)"
    unfolding at_most_one_link_iff
  proof
    fix s
    show "length (stack_links (graph ?w') s) \<le> 1"
    proof (cases "s = ?su")
      case True
      then show ?thesis using same by simp
    next
      case False
      then show ?thesis
        using other [of s] a by (simp add: at_most_one_link_iff)
    qed
  qed
  show ?thesis
    using r t same other inv by blast
qed



section \<open>The change-notification entry point\<close>

lemma delta_inserts_delta_body: "delta_inserts (delta_body elems) = Inr (JArr elems)"
  by (simp add: delta_inserts_def delta_body_def)

lemma handle_delta_update_triples:
  assumes "delta_inserts data = Inr (JArr elems)" and "list_all2 is_triple elems ts"
  shows "handle_delta_update env w (Some data) =
           (case find qualifies ts of
              None \<Rightarrow> (Response 200 (Text ''whatever''), w)
            | Some t \<Rightarrow>
                if subj t \<noteq> [] then link_inserted env w (JStr (subj t))
                else (Response 200 (Text ''whatever''), w))"
proof -
  have "stack_inserted (JArr elems) = Inr (map_option (\<lambda>t. JStr (subj t)) (find qualifies ts))"
    using comprehension_triples [OF assms(2)] by (simp add: stack_inserted_def hd_filter_find)
  then show ?thesis
    using assms(1) by (simp add: handle_delta_update_def split: option.splits)
qed

lemma link_inserted_replies:
  "fst (link_inserted env w uri) = Response 200 Success_envelope \<or>
   fst (link_inserted env w uri) = Response 500 (Conflict_envelope (URIStack uri)) \<or>
   (\<exists>e. e \<noteq> AttributeError \<and> fst (link_inserted env w uri) = Raised e)"
  by (auto simp: link_inserted_def persist_and_link_def Let_def split: prod.splits sum.splits)

text \<open>
  C9. When the inserted triples of a change notification hold no triple of type
  Stack, the handler answers 200 with the plain text and the world is what it was:
  no query, no lookup, no subprocess and no update has been recorded, and the graph
  is unchanged.
\<close>

theorem no_stack_insert_is_inert:
  assumes "delta_inserts data = Inr (JArr elems)"
    and "list_all2 is_triple elems ts"
    and "\<forall>t \<in> set ts. \<not> qualifies t"
  shows "handle_delta_update env w (Some data) = (Response 200 (Text ''whatever''), w)"
proof -
  have "find qualifies ts = None"
    using assms(3) by (simp add: find_None_iff)
  then show ?thesis
    using handle_delta_update_triples [OF assms(1) assms(2), of env w] by simp
qed

theorem no_stack_insert_is_inert_witness:
  "delta_inserts (delta_body [triple_json \<lparr>subj = ''a'', pred = ''p'', obj = doap_Stack\<rparr>]) =
     Inr (JArr [triple_json \<lparr>subj = ''a'', pred = ''p'', obj = doap_Stack\<rparr>]) \<and>
   list_all2 is_triple [triple_json \<lparr>subj = ''a'', pred = ''p'', obj = doap_Stack\<rparr>]
     [\<lparr>subj = ''a'', pred = ''p'', obj = doap_Stack\<rparr>] \<and>
   \<not> qualifies \<lparr>subj = ''a'', pred = ''p'', obj = doap_Stack\<rparr> \<and>
   handle_delta_update env_fetched world_unlinked
     (Some (delta_body [triple_json \<lparr>subj = ''a'', pred = ''p'', obj = doap_Stack\<rparr>])) =
     (Response 200 (Text ''whatever''), world_unlinked)"
proof -
  let ?t = "\<lparr>subj = ''a'', pred = ''p'', obj = doap_Stack\<rparr>"
  have h1: "delta_inserts (delta_body [triple_json ?t]) = Inr (JArr [triple_json ?t])"
    by (rule delta_inserts_delta_body)
  have h2: "list_all2 is_triple [triple_json ?t] [?t]"
    by (simp add: is_triple_triple_json)
  have q: "\<not> qualifies ?t"
    by (simp add: qualifies_def rdf_type_def)
  then have h3: "\<forall>t \<in> set [?t]. \<not> qualifies t"
    by simp
  show ?thesis
    using h1 h2 q no_stack_insert_is_inert [OF h1 h2 h3, of env_fetched world_unlinked]
    by blast
qed

text \<open>
  C5, as the code has it. For a body of the documented shape whose inserts are
  triples, the reply is the success envelope or the plain text with status 200, or
  the conflict envelope, and that one is raised as an
  \<open>HTTPInternalServerError\<close>, status 500; an exception of the workflow other than
  \<open>AttributeError\<close> is not caught.
\<close>

theorem delta_update_replies:
  assumes "delta_inserts data = Inr (JArr elems)"
    and "list_all2 is_triple elems ts"
  shows "fst (handle_delta_update env w (Some data)) = Response 200 Success_envelope \<or>
         fst (handle_delta_update env w (Some data)) = Response 200 (Text ''whatever'') \<or>
         (\<exists>t. find qualifies ts = Some t \<and>
              fst (handle_delta_update env w (Some data)) =
                Response 500 (Conflict_envelope (URIStack (JStr (subj t))))) \<or>
         (\<exists>e. e \<noteq> AttributeError \<and> fst (handle_delta_update env w (Some data)) = Raised e)"
proof (cases "find qualifies ts")
  case None
  then show ?thesis
    using handle_delta_update_triples [OF assms, of env w] by simp
next
  case (Some t)
  show ?thesis
  proof (cases "subj t = []")
    case True
    then show ?thesis
      using Some handle_delta_update_triples [OF assms, of env w] by simp
  next
    case False
    then have "handle_delta_update env w (Some data) = link_inserted env w (JStr (subj t))"
      using Some handle_delta_update_triples [OF assms, of env w] by simp
    then show ?thesis
      using Some link_inserted_replies [of env w "JStr (subj t)"] by auto
  qed
qed

text \<open>
  C5 as stated fails: a notification of the documented shape for a stack that is
  linked already is answered with status 500.
\<close>

theorem delta_update_conflict_is_500:
  "handle_delta_update env_fetched world_linked
     (Some (delta_body
        [triple_json \<lparr>subj = stack_uri_of ''abc'', pred = rdf_type, obj = doap_Stack\<rparr>])) =
   (Response 500 (Conflict_envelope (URIStack (JStr (stack_uri_of ''abc'')))),
    emit [Lookup (JStr (stack_uri_of ''abc'')), ask_effect stack_abc] world_linked)"
proof -
  let ?t = "\<lparr>subj = stack_uri_of ''abc'', pred = rdf_type, obj = doap_Stack\<rparr>"
  have h2: "list_all2 is_triple [triple_json ?t] [?t]"
    by (simp add: is_triple_triple_json)
  have ne: "stack_uri_of ''abc'' \<noteq> []"
    by (simp add: stack_uri_of_def)
  have l: "lookup env_fetched (graph world_linked) (JStr (stack_uri_of ''abc'')) = Inr stack_abc"
    by (simp add: env_fetched_def lookup_abc_def)
  have a: "ask_drc (graph (emit [Lookup (JStr (stack_uri_of ''abc''))] world_linked)) (uuid stack_abc)"
    using linked_abc by simp
  have "link_inserted env_fetched world_linked (JStr (stack_uri_of ''abc'')) =
          (Response 500 (Conflict_envelope (URIStack (JStr (stack_uri_of ''abc'')))),
           emit [Lookup (JStr (stack_uri_of ''abc'')), ask_effect stack_abc] world_linked)"
    using docker_compose_linked [OF resolve_URIStack [OF l] a]
    by (simp add: link_inserted_def persist_and_link_None emit_emit)
  then show ?thesis
    using handle_delta_update_triples [OF delta_inserts_delta_body h2, of env_fetched world_linked] ne
    by (simp add: qualifies_def)
qed

theorem delta_update_replies_witness:
  "delta_inserts (delta_body [triple_json \<lparr>subj = ''a'', pred = ''p'', obj = doap_Stack\<rparr>]) =
     Inr (JArr [triple_json \<lparr>subj = ''a'', pred = ''p'', obj = doap_Stack\<rparr>]) \<and>
   list_all2 is_triple [triple_json \<lparr>subj = ''a'', pred = ''p'', obj = doap_Stack\<rparr>]
     [\<lparr>subj = ''a'', pred = ''p'', obj = doap_Stack\<rparr>] \<and>
   find qualifies [\<lparr>subj = ''a'', pred = ''p'', obj = doap_Stack\<rparr>] = None \<and>
   (fst (handle_delta_update env_fetched world_unlinked
          (Some (delta_body [triple_json \<lparr>subj = ''a'', pred = ''p'', obj = doap_Stack\<rparr>]))) =
      Response 200 Success_envelope \<or>
    fst (handle_delta_update env_fetched world_unlinked
          (Some (delta_body [triple_json \<lparr>subj = ''a'', pred = ''p'', obj = doap_Stack\<rparr>]))) =
      Response 200 (Text ''whatever'') \<or>
    (\<exists>e. e \<noteq> AttributeError \<and>
       fst (handle_delta_update env_fetched world_unlinked
          (Some (delta_body [triple_json \<lparr>subj = ''a'', pred = ''p'', obj = doap_Stack\<rparr>]))) =
       Raised e))"
proof -
  let ?t = "\<lparr>subj = ''a'', pred = ''p'', obj = doap_Stack\<rparr>"
  have h1: "delta_inserts (delta_body [triple_json ?t]) = Inr (JArr [triple_json ?t])"
    by (rule delta_inserts_delta_body)
  have h2: "list_all2 is_triple [triple_json ?t] [?t]"
    by (simp add: is_triple_triple_json)
  have q: "find qualifies [?t] = None"
    by (simp add: qualifies_def rdf_type_def)
  show ?thesis
    using h1 h2 q delta_update_replies [OF h1 h2, of env_fetched world_unlinked]
    by auto
qed

text \<open>
  C10. A body that parses as JSON but is not of the documented shape makes the
  handler fail with an exception nobody catches: \<open>KeyError\<close> when the object has no
  key \<open>delta\<close>, \<open>IndexError\<close> when \<open>delta\<close> is the empty list, \<open>KeyError\<close> when
  the first element of \<open>delta\<close> is an object without the key \<open>inserts\<close>. None of
  the documented replies is produced, and nothing has been done to the world.
\<close>

theorem malformed_delta_body_raises:
  "(map_of kvs ''delta'' = None \<longrightarrow>
      handle_delta_update env w (Some (JObj kvs)) = (Raised KeyError, w)) \<and>
   (map_of kvs ''delta'' = Some (JArr []) \<longrightarrow>
      handle_delta_update env w (Some (JObj kvs)) = (Raised IndexError, w)) \<and>
   (map_of kvs ''delta'' = Some (JArr (JObj kvs' # rest)) \<and> map_of kvs' ''inserts'' = None \<longrightarrow>
      handle_delta_update env w (Some (JObj kvs)) = (Raised KeyError, w))"
  by (simp add: handle_delta_update_def delta_inserts_def)

theorem malformed_delta_body_raises_witness:
  "map_of ([] :: (string \<times> json) list) ''delta'' = None \<and>
   handle_delta_update env_fetched world_unlinked (Some (JObj [])) =
     (Raised KeyError, world_unlinked) \<and>
   map_of [(''delta'', JArr [])] ''delta'' = Some (JArr []) \<and>
   handle_delta_update env_fetched world_unlinked (Some (JObj [(''delta'', JArr [])])) =
     (Raised IndexError, world_unlinked) \<and>
   map_of [(''delta'', JArr [JObj []])] ''delta'' = Some (JArr [JObj []]) \<and>
   map_of ([] :: (string \<times> json) list) ''inserts'' = None \<and>
   handle_delta_update env_fetched world_unlinked (Some (JObj [(''delta'', JArr [JObj []])])) =
     (Raised KeyError, world_unlinked)"
  using malformed_delta_body_raises [where kvs = "[]" and env = env_fetched and w = world_unlinked]
    malformed_delta_body_raises [where kvs = "[(''delta'', JArr [])]" and env = env_fetched
      and w = world_unlinked]
    malformed_delta_body_raises [where kvs = "[(''delta'', JArr [JObj []])]" and kvs' = "[]"
      and rest = "[]" and env = env_fetched and w = world_unlinked]
  by simp


section \<open>Arguments of the requests\<close>

text \<open>
  C8 holds for the string literals only: the stack identifier of the query, the
  manifest's identifier, text and title go through \<open>escape_string\<close> (see
  \<open>ensure_stack_has_drc_escapes\<close> and \<open>create_drc_db_Some\<close>). The IRIs do not:
  \<open>update_stack_drc\<close> passes the stack's IRI, built from the identifier, and the
  manifest's IRI as plain strings. With the identifier \<open>x> <p> <o>. <y\<close> the text of
  the update names two more triples than the template has, whatever
  \<open>escape_string\<close> does.
\<close>

theorem relink_passes_raw_identifier:
  "update_stack_drc env w d stack_breaking =
     sparql_update env w
       (Relink (Raw ''http://swarm-ui.big-data-europe.eu/resources/stacks/x> <p> <o>. <y'')
          (Raw d)) \<and>
   relink_text esc g (Raw (stack_uri_of (uuid stack_breaking))) (Raw d) =
     ''PREFIX swarmui: <http://swarmui.semte.ch/vocabularies/core/> '' @
     ''DELETE { GRAPH '' @ g @
       '' { <http://swarm-ui.big-data-europe.eu/resources/stacks/x> <p> <o>. '' @
       ''<y> swarmui:dockerComposeFile ?s. } } '' @
     ''WHERE { GRAPH '' @ g @
       '' { OPTIONAL { <http://swarm-ui.big-data-europe.eu/resources/stacks/x> <p> <o>. '' @
       ''<y> swarmui:dockerComposeFile ?s. } } }; '' @
     ''INSERT DATA { GRAPH '' @ g @
       '' { <http://swarm-ui.big-data-europe.eu/resources/stacks/x> <p> <o>. '' @
       ''<y> swarmui:dockerComposeFile <'' @ d @ ''>. } }''"
  by (simp add: update_stack_drc_def relink_text_def stack_uri_of_def stack_breaking_def)

end
